theory Spec2Isabelle
  imports Main
begin

section \<open>Python strings\<close>

text \<open>
  A Python \<open>str\<close> is a sequence of Unicode code points, so it is modelled as a list of
  natural numbers. \<open>str\<close> turns an ASCII literal of the source into such a list; the two
  non-ASCII characters of the source (U+2728 and U+2705) are written as numbers.
\<close>

type_synonym pystr = "nat list"

definition str :: "string \<Rightarrow> pystr" where
  "str s = map of_char s"

text \<open>
  \<open>str.isspace\<close> for one code point: the code points CPython treats as whitespace.
\<close>

definition py_isspace :: "nat \<Rightarrow> bool" where
  "py_isspace c \<longleftrightarrow>
     (9 \<le> c \<and> c \<le> 13) \<or> (28 \<le> c \<and> c \<le> 32) \<or> c = 133 \<or> c = 160 \<or> c = 5760 \<or>
     (8192 \<le> c \<and> c \<le> 8202) \<or> c = 8232 \<or> c = 8233 \<or> c = 8239 \<or> c = 8287 \<or>
     c = 12288"

text \<open>\<open>s.strip()\<close>: whitespace removed at both ends.\<close>

definition py_strip :: "pystr \<Rightarrow> pystr" where
  "py_strip s = rev (dropWhile py_isspace (rev (dropWhile py_isspace s)))"

text \<open>\<open>sep.join(xs)\<close>.\<close>

fun py_join :: "pystr \<Rightarrow> pystr list \<Rightarrow> pystr" where
  "py_join sep [] = []"
| "py_join sep [x] = x"
| "py_join sep (x # y # ys) = x @ sep @ py_join sep (y # ys)"

text \<open>
  \<open>os.path.join(a, b)\<close> of \<open>posixpath\<close>, for two components: an absolute \<open>b\<close>
  replaces \<open>a\<close>, otherwise a separator is inserted unless \<open>a\<close> is empty or ends in one.
\<close>

definition os_path_join :: "pystr \<Rightarrow> pystr \<Rightarrow> pystr" where
  "os_path_join a b =
     (if b \<noteq> [] \<and> hd b = 47 then b
      else if a = [] \<or> last a = 47 then a @ b
      else a @ [47] @ b)"

section \<open>The environment\<close>

text \<open>
  What the operating system answers when a process is spawned with captured output:
  the process ran and exited with a return code, its decoded stdout and stderr; or the
  executable (or the working directory) does not exist; or the spawn failed otherwise.
\<close>

datatype spawn_result =
    Exited int pystr pystr
  | NoSuchFile
  | SpawnError pystr

text \<open>
  The external world has a state of type \<open>'w\<close> (file system, repository, index). The
  program reads it through \<open>shutil.which\<close> and \<open>os.path.isdir\<close> and changes it only by
  running processes: \<open>spawn\<close> takes the argument vector and the working directory and
  returns the result together with the world the process leaves.
\<close>

record 'w sys =
  which :: "'w \<Rightarrow> pystr \<Rightarrow> pystr option"
  isdir :: "'w \<Rightarrow> pystr \<Rightarrow> bool"
  spawn :: "'w \<Rightarrow> pystr list \<Rightarrow> pystr option \<Rightarrow> spawn_result \<times> 'w"

datatype exn =
    CalledProcessError "pystr list" int pystr pystr
  | FileNotFoundError
  | Abort
  | OtherException pystr

text \<open>
  \<open>subprocess.run(argv, cwd=cwd, capture_output=True, text=True, check=True)\<close>:
  with \<open>check=True\<close> a non-zero return code raises \<open>CalledProcessError\<close> carrying the
  command, the return code and the captured output; return code 0 gives the captured
  stdout and stderr. \<open>completed\<close> is that reading of one spawn result.
\<close>

definition completed :: "pystr list \<Rightarrow> spawn_result \<Rightarrow> exn + pystr \<times> pystr" where
  "completed argv r =
     (case r of
        Exited rc out err \<Rightarrow>
          if rc \<noteq> 0 then Inl (CalledProcessError argv rc out err) else Inr (out, err)
      | NoSuchFile \<Rightarrow> Inl FileNotFoundError
      | SpawnError m \<Rightarrow> Inl (OtherException m))"

definition subprocess_run ::
  "'w sys \<Rightarrow> 'w \<Rightarrow> pystr list \<Rightarrow> pystr option \<Rightarrow> (exn + pystr \<times> pystr) \<times> 'w" where
  "subprocess_run sys w argv cwd =
     (case spawn sys w argv cwd of (r, w') \<Rightarrow> (completed argv r, w'))"

text \<open>
  The lines the user types at a confirmation prompt, each classified the way
  \<open>click.confirm\<close> reads it: yes, no, nothing but the enter key, or anything else.
  \<open>click.confirm(text, default=d)\<close> asks again after an invalid answer, takes the default
  on a bare enter, and raises \<open>Abort\<close> when the input ends.
\<close>

datatype answer = AnsYes | AnsNo | AnsBare | AnsInvalid

fun click_confirm :: "bool \<Rightarrow> answer list \<Rightarrow> exn + bool" where
  "click_confirm d [] = Inl Abort"
| "click_confirm d (AnsYes # rest) = Inr True"
| "click_confirm d (AnsNo # rest) = Inr False"
| "click_confirm d (AnsBare # rest) = Inr d"
| "click_confirm d (AnsInvalid # rest) = click_confirm d rest"

section \<open>The command\<close>

datatype stream = Stdout | Stderr

text \<open>
  What a run does and what it is answered, in order: a lookup on the executable search
  path with its result, a directory test with its result, a line written by
  \<open>click.echo\<close> (to stderr when \<open>err=True\<close>), a process run with its argument
  vector, its working directory and its result, a confirmation prompt with its default
  and the user's decision.
\<close>

datatype event =
    Which pystr "pystr option"
  | IsDir pystr bool
  | Echo stream pystr
  | Run "pystr list" "pystr option" spawn_result
  | Confirm pystr bool "exn + bool"

datatype status = Returned | Raised exn

record 'w result =
  trace :: "event list"
  status :: status
  world :: 'w

definition git_diff_argv :: "pystr list" where
  "git_diff_argv = [str ''git'', str ''diff'', str ''--staged'']"

definition make_prompt :: "pystr \<Rightarrow> pystr" where
  "make_prompt git_diff =
     str ''You are an expert programmer. Your task is to write a concise and conventional ''
     @ str ''commit message based on the following git diff. The message should be in the imperative mood, ''
     @ str ''for example, 'Add feature' not 'Added feature'. Do not include any preamble or backticks.\<newline>\<newline>''
     @ str ''--- GIT DIFF ---\<newline>''
     @ git_diff
     @ str ''\<newline>--- END GIT DIFF ---\<newline>\<newline>''
     @ str ''Commit message:''"

definition gemini_argv :: "pystr \<Rightarrow> pystr list" where
  "gemini_argv prompt = [str ''gemini'', str ''chat'', prompt]"

definition git_commit_argv :: "pystr \<Rightarrow> pystr list" where
  "git_commit_argv commit_message = [str ''git'', str ''commit'', str ''-m'', commit_message]"

definition separator :: pystr where
  "separator = str ''---------------------------------''"

text \<open>
  The body of the \<open>try\<close> block of \<open>cli\<close>. The result is the trace so far, \<open>Inr ()\<close> when
  the block returns or runs to its end and \<open>Inl e\<close> when it raises \<open>e\<close>, and the world.
\<close>

definition cli_try ::
  "'w sys \<Rightarrow> answer list \<Rightarrow> pystr \<Rightarrow> 'w \<Rightarrow> event list \<Rightarrow> event list \<times> (exn + unit) \<times> 'w" where
  "cli_try sys answers path w t0 =
     (let dot_git = os_path_join path (str ''.git'');
          t1 = t0 @ [IsDir dot_git (isdir sys w dot_git)] in
      if \<not> isdir sys w dot_git then
        (t1 @ [Echo Stderr (str ''Error: The provided path is not a Git repository.'')],
         Inr (), w)
      else
        let t2 = t1 @ [Run git_diff_argv (Some path)
                         (fst (spawn sys w git_diff_argv (Some path)))] in
        (case subprocess_run sys w git_diff_argv (Some path) of
          (Inl e, w1) \<Rightarrow> (t2, Inl e, w1)
        | (Inr (git_diff, _), w1) \<Rightarrow>
            if git_diff = [] then
              (t2 @ [Echo Stdout
                  (str ''No staged changes to commit. Use 'git add' to stage your changes.'')],
               Inr (), w1)
            else
              let prompt = make_prompt git_diff;
                  t3 = t2 @ [Echo Stdout
                    (str ''Sending staged changes to Gemini to generate a commit message...''),
                    Run (gemini_argv prompt) None
                      (fst (spawn sys w1 (gemini_argv prompt) None))] in
              (case subprocess_run sys w1 (gemini_argv prompt) None of
                (Inl e, w2) \<Rightarrow> (t3, Inl e, w2)
              | (Inr (gemini_stdout, _), w2) \<Rightarrow>
                  let commit_message = py_strip gemini_stdout;
                      t4 = t3 @
                        [Echo Stdout
                           ([10, 10024] @ str '' Suggested Commit Message '' @ [10024]),
                         Echo Stdout separator,
                         Echo Stdout commit_message,
                         Echo Stdout separator,
                         Confirm (10 # str ''Do you want to commit with this message?'') True
                           (click_confirm True answers)] in
                  (case click_confirm True answers of
                    Inl e \<Rightarrow> (t4, Inl e, w2)
                  | Inr False \<Rightarrow>
                      (t4 @ [Echo Stdout (str ''Commit aborted by user.'')], Inr (), w2)
                  | Inr True \<Rightarrow>
                      let t5 = t4 @ [Echo Stdout (str ''Committing changes...''),
                                     Run (git_commit_argv commit_message) (Some path)
                                       (fst (spawn sys w2 (git_commit_argv commit_message)
                                          (Some path)))] in
                      (case subprocess_run sys w2 (git_commit_argv commit_message) (Some path) of
                        (Inl e, w3) \<Rightarrow> (t5, Inl e, w3)
                      | (Inr (commit_stdout, _), w3) \<Rightarrow>
                          (t5 @ [Echo Stdout ([10, 9989] @ str '' Commit successful!''),
                                 Echo Stdout commit_stdout],
                           Inr (), w3))))))"

text \<open>The \<open>except\<close> clauses of \<open>cli\<close>: what is printed for an exception of the block.\<close>

definition handle_exn :: "exn \<Rightarrow> event list \<times> status" where
  "handle_exn e =
     (case e of
        CalledProcessError cmd rc out err \<Rightarrow>
          ([Echo Stderr (10 # str ''An error occurred while running an external command:''),
            Echo Stderr (str ''Command: '' @ py_join (str '' '') cmd),
            Echo Stderr (str ''Error Message: '' @ err)],
           Returned)
      | FileNotFoundError \<Rightarrow>
          ([Echo Stderr
              (str ''Error: 'git' command not found. Make sure Git is installed and in your PATH.'')],
           Returned)
      | _ \<Rightarrow> ([], Raised e))"

text \<open>
  \<open>cli(path)\<close>, with \<open>path\<close> the argument as the function receives it (an existing
  directory, resolved).
\<close>

definition cli :: "'w sys \<Rightarrow> answer list \<Rightarrow> pystr \<Rightarrow> 'w \<Rightarrow> 'w result" where
  "cli sys answers path w =
     (let t0 = [Which (str ''gemini'') (which sys w (str ''gemini''))] in
      if (case which sys w (str ''gemini'') of None \<Rightarrow> True | Some p \<Rightarrow> p = []) then
        \<lparr>trace = t0 @
           [Echo Stderr (str ''Error: The 'gemini' CLI is not installed or not in your PATH.''),
            Echo Stderr (str ''Please install it using: npm install -g @google/gemini-cli'')],
         status = Returned, world = w\<rparr>
      else
        case cli_try sys answers path w
               (t0 @ [Echo Stdout (str ''Analyzing repository at: '' @ path)]) of
          (t, Inr _, w') \<Rightarrow> \<lparr>trace = t, status = Returned, world = w'\<rparr>
        | (t, Inl e, w') \<Rightarrow>
            \<lparr>trace = t @ fst (handle_exn e), status = snd (handle_exn e), world = w'\<rparr>)"

section \<open>Reading a trace\<close>

text \<open>The argument vectors of the processes a trace ran, in order.\<close>

fun invoked :: "event list \<Rightarrow> pystr list list" where
  "invoked [] = []"
| "invoked (Run argv cwd res # t) = argv # invoked t"
| "invoked (e # t) = invoked t"

text \<open>The lines a trace wrote to one stream, in order.\<close>

fun echoed :: "stream \<Rightarrow> event list \<Rightarrow> pystr list" where
  "echoed s [] = []"
| "echoed s (Echo s' m # t) = (if s' = s then m # echoed s t else echoed s t)"
| "echoed s (e # t) = echoed s t"

text \<open>
  The exit code of the process: a command that returns makes \<open>click\<close> exit with 0; an
  exception that leaves \<open>cli\<close> ends the process with 1.
\<close>

definition exit_code :: "status \<Rightarrow> int" where
  "exit_code s = (case s of Returned \<Rightarrow> 0 | Raised _ \<Rightarrow> 1)"

section \<open>The traces of the paths through the command\<close>

text \<open>
  The events of a run up to each stage, as abbreviations of the lists they stand for:
  after the repository test, after \<open>git diff --staged\<close>, after the call of
  \<open>gemini chat\<close>, after the confirmation prompt, after \<open>git commit\<close>.
\<close>

abbreviation (input) trace_checked :: "pystr option \<Rightarrow> pystr \<Rightarrow> bool \<Rightarrow> event list" where
  "trace_checked gw path dir \<equiv>
     [Which (str ''gemini'') gw,
      Echo Stdout (str ''Analyzing repository at: '' @ path),
      IsDir (os_path_join path (str ''.git'')) dir]"

abbreviation (input) trace_diffed :: "pystr option \<Rightarrow> pystr \<Rightarrow> spawn_result \<Rightarrow> event list" where
  "trace_diffed gw path r1 \<equiv>
     trace_checked gw path True @ [Run git_diff_argv (Some path) r1]"

abbreviation (input) trace_asked ::
  "pystr option \<Rightarrow> pystr \<Rightarrow> pystr \<Rightarrow> pystr \<Rightarrow> spawn_result \<Rightarrow> event list" where
  "trace_asked gw path d e1 r2 \<equiv>
     trace_diffed gw path (Exited 0 d e1) @
     [Echo Stdout (str ''Sending staged changes to Gemini to generate a commit message...''),
      Run (gemini_argv (make_prompt d)) None r2]"

abbreviation (input) trace_prompted ::
  "pystr option \<Rightarrow> pystr \<Rightarrow> pystr \<Rightarrow> pystr \<Rightarrow> pystr \<Rightarrow> pystr \<Rightarrow> exn + bool \<Rightarrow> event list" where
  "trace_prompted gw path d e1 g e2 c \<equiv>
     trace_asked gw path d e1 (Exited 0 g e2) @
     [Echo Stdout ([10, 10024] @ str '' Suggested Commit Message '' @ [10024]),
      Echo Stdout separator,
      Echo Stdout (py_strip g),
      Echo Stdout separator,
      Confirm (10 # str ''Do you want to commit with this message?'') True c]"

abbreviation (input) trace_committing ::
  "pystr option \<Rightarrow> pystr \<Rightarrow> pystr \<Rightarrow> pystr \<Rightarrow> pystr \<Rightarrow> pystr \<Rightarrow> spawn_result \<Rightarrow> event list" where
  "trace_committing gw path d e1 g e2 r3 \<equiv>
     trace_prompted gw path d e1 g e2 (Inr True) @
     [Echo Stdout (str ''Committing changes...''),
      Run (git_commit_argv (py_strip g)) (Some path) r3]"

abbreviation (input) gemini_found :: "'w sys \<Rightarrow> 'w \<Rightarrow> bool" where
  "gemini_found sys w \<equiv>
     \<not> (case which sys w (str ''gemini'') of None \<Rightarrow> True | Some p \<Rightarrow> p = [])"

section \<open>Example systems\<close>

text \<open>
  A small concrete system: the world is the number of commits made so far; \<open>gemini\<close>
  is installed or not; the directories are those of a list; \<open>git diff --staged\<close>,
  \<open>gemini chat\<close> and \<open>git commit\<close> each answer with a fixed result, and a commit
  adds one to the world.
\<close>

definition demo_sys ::
  "bool \<Rightarrow> pystr list \<Rightarrow> spawn_result \<Rightarrow> spawn_result \<Rightarrow> spawn_result \<Rightarrow> nat sys" where
  "demo_sys gem dirs d ai c =
     \<lparr>which = (\<lambda>w p. if gem then Some (str ''/usr/bin/'' @ p) else None),
      isdir = (\<lambda>w p. p \<in> set dirs),
      spawn = (\<lambda>w argv cwd.
         if argv = git_diff_argv then (d, w)
         else if hd argv = str ''gemini'' then (ai, w)
         else (c, Suc w))\<rparr>"

text \<open>
  The same with \<open>gemini\<close> installed and a repository at \<open>/r\<close>; and the system of the
  scenarios: a staged diff \<open>+x\<close>, the reply "Fix off-by-one in parser" followed by a
  newline, and a commit that ends as given.
\<close>

definition repo_sys :: "spawn_result \<Rightarrow> spawn_result \<Rightarrow> spawn_result \<Rightarrow> nat sys" where
  "repo_sys d ai c = demo_sys True [str ''/r'', str ''/r/.git''] d ai c"

definition scenario_sys :: "spawn_result \<Rightarrow> nat sys" where
  "scenario_sys c =
     repo_sys (Exited 0 (str ''+x'') [])
       (Exited 0 (str ''Fix off-by-one in parser\<newline>'') []) c"

section \<open>Case analysis of a run\<close>

text \<open>Two literals of the source are the same string only if they are written the same.\<close>

lemma str_eq_iff [simp]: "str a = str b \<longleftrightarrow> a = b"
  unfolding str_def by (simp add: inj_map_eq_map inj_of_char)

lemma str_Nil_iff [simp]: "str a = [] \<longleftrightarrow> a = []"
  by (simp add: str_def)

lemma invoked_append: "invoked (xs @ ys) = invoked xs @ invoked ys"
  by (induction xs rule: invoked.induct) simp_all

lemma echoed_append: "echoed s (xs @ ys) = echoed s xs @ echoed s ys"
  by (induction s xs rule: echoed.induct) simp_all

lemma completed_Inr: "completed argv r = Inr (out, err) \<longleftrightarrow> r = Exited 0 out err"
  by (auto simp: completed_def split: spawn_result.splits)

text \<open>The \<open>except\<close> clauses only write to stderr.\<close>

lemma handle_exn_called [simp]:
  "handle_exn (CalledProcessError cmd rc out err) =
     ([Echo Stderr (10 # str ''An error occurred while running an external command:''),
       Echo Stderr (str ''Command: '' @ py_join (str '' '') cmd),
       Echo Stderr (str ''Error Message: '' @ err)],
      Returned)"
  by (simp add: handle_exn_def)

lemma handle_exn_not_found [simp]:
  "handle_exn FileNotFoundError =
     ([Echo Stderr
         (str ''Error: 'git' command not found. Make sure Git is installed and in your PATH.'')],
      Returned)"
  by (simp add: handle_exn_def)

lemma handle_exn_abort [simp]: "handle_exn Abort = ([], Raised Abort)"
  by (simp add: handle_exn_def)

lemma handle_exn_other [simp]: "handle_exn (OtherException m) = ([], Raised (OtherException m))"
  by (simp add: handle_exn_def)

lemma handle_exn_events: "x \<in> set (fst (handle_exn e)) \<Longrightarrow> \<exists>m. x = Echo Stderr m"
  by (cases e) (auto simp: handle_exn_def)

lemma handle_exn_no_run [simp]: "Run argv cwd r \<notin> set (fst (handle_exn e))"
  using handle_exn_events by blast

lemma handle_exn_no_confirm [simp]: "Confirm q d c \<notin> set (fst (handle_exn e))"
  using handle_exn_events by blast

lemma handle_exn_no_which [simp]: "Which g r \<notin> set (fst (handle_exn e))"
  using handle_exn_events by blast

lemma handle_exn_no_isdir [simp]: "IsDir p b \<notin> set (fst (handle_exn e))"
  using handle_exn_events by blast

lemma handle_exn_no_stdout [simp]: "Echo Stdout m \<notin> set (fst (handle_exn e))"
  using handle_exn_events by blast

lemma invoked_handle_exn [simp]: "invoked (fst (handle_exn e)) = []"
  by (cases e) (simp_all add: handle_exn_def)

lemma completed_Inl_Exited:
  "completed argv (Exited rc out err) = Inl e \<longleftrightarrow>
     rc \<noteq> 0 \<and> e = CalledProcessError argv rc out err"
  by (auto simp: completed_def)

lemma completed_Inl_NoSuchFile: "completed argv NoSuchFile = Inl e \<longleftrightarrow> e = FileNotFoundError"
  by (auto simp: completed_def)

lemma completed_Inl_SpawnError:
  "completed argv (SpawnError m) = Inl e \<longleftrightarrow> e = OtherException m"
  by (auto simp: completed_def)

lemmas completed_Inl = completed_Inl_Exited completed_Inl_NoSuchFile completed_Inl_SpawnError

lemmas argv_defs = git_diff_argv_def gemini_argv_def git_commit_argv_def

lemmas run_defs = cli_def cli_try_def subprocess_run_def completed_def handle_exn_def
  scenario_sys_def repo_sys_def demo_sys_def Let_def argv_defs str_def os_path_join_def
  py_strip_def py_isspace_def

text \<open>
  Every run of \<open>cli\<close> takes one of nine paths; each case gives what the environment
  answered on that path and the whole result.
\<close>

lemma cli_cases [case_names no_gemini not_repo diff_raised empty_diff gemini_raised
    interrupted declined commit_raised committed]:
  fixes sys :: "'w sys"
  obtains
    "\<not> gemini_found sys w"
    "cli sys answers path w =
       \<lparr>trace = [Which (str ''gemini'') (which sys w (str ''gemini'')),
          Echo Stderr (str ''Error: The 'gemini' CLI is not installed or not in your PATH.''),
          Echo Stderr (str ''Please install it using: npm install -g @google/gemini-cli'')],
        status = Returned, world = w\<rparr>"
  | "gemini_found sys w" "\<not> isdir sys w (os_path_join path (str ''.git''))"
    "cli sys answers path w =
       \<lparr>trace = trace_checked (which sys w (str ''gemini'')) path False @
          [Echo Stderr (str ''Error: The provided path is not a Git repository.'')],
        status = Returned, world = w\<rparr>"
  | r1 w1 e where
    "gemini_found sys w" "isdir sys w (os_path_join path (str ''.git''))"
    "spawn sys w git_diff_argv (Some path) = (r1, w1)"
    "completed git_diff_argv r1 = Inl e"
    "cli sys answers path w =
       \<lparr>trace = trace_diffed (which sys w (str ''gemini'')) path r1 @ fst (handle_exn e),
        status = snd (handle_exn e), world = w1\<rparr>"
  | e1 w1 where
    "gemini_found sys w" "isdir sys w (os_path_join path (str ''.git''))"
    "spawn sys w git_diff_argv (Some path) = (Exited 0 [] e1, w1)"
    "cli sys answers path w =
       \<lparr>trace = trace_diffed (which sys w (str ''gemini'')) path (Exited 0 [] e1) @
          [Echo Stdout
             (str ''No staged changes to commit. Use 'git add' to stage your changes.'')],
        status = Returned, world = w1\<rparr>"
  | d e1 w1 r2 w2 e where
    "gemini_found sys w" "isdir sys w (os_path_join path (str ''.git''))"
    "spawn sys w git_diff_argv (Some path) = (Exited 0 d e1, w1)" "d \<noteq> []"
    "spawn sys w1 (gemini_argv (make_prompt d)) None = (r2, w2)"
    "completed (gemini_argv (make_prompt d)) r2 = Inl e"
    "cli sys answers path w =
       \<lparr>trace = trace_asked (which sys w (str ''gemini'')) path d e1 r2 @ fst (handle_exn e),
        status = snd (handle_exn e), world = w2\<rparr>"
  | d e1 w1 g e2 w2 e where
    "gemini_found sys w" "isdir sys w (os_path_join path (str ''.git''))"
    "spawn sys w git_diff_argv (Some path) = (Exited 0 d e1, w1)" "d \<noteq> []"
    "spawn sys w1 (gemini_argv (make_prompt d)) None = (Exited 0 g e2, w2)"
    "click_confirm True answers = Inl e"
    "cli sys answers path w =
       \<lparr>trace = trace_prompted (which sys w (str ''gemini'')) path d e1 g e2 (Inl e) @
          fst (handle_exn e),
        status = snd (handle_exn e), world = w2\<rparr>"
  | d e1 w1 g e2 w2 where
    "gemini_found sys w" "isdir sys w (os_path_join path (str ''.git''))"
    "spawn sys w git_diff_argv (Some path) = (Exited 0 d e1, w1)" "d \<noteq> []"
    "spawn sys w1 (gemini_argv (make_prompt d)) None = (Exited 0 g e2, w2)"
    "click_confirm True answers = Inr False"
    "cli sys answers path w =
       \<lparr>trace = trace_prompted (which sys w (str ''gemini'')) path d e1 g e2 (Inr False) @
          [Echo Stdout (str ''Commit aborted by user.'')],
        status = Returned, world = w2\<rparr>"
  | d e1 w1 g e2 w2 r3 w3 e where
    "gemini_found sys w" "isdir sys w (os_path_join path (str ''.git''))"
    "spawn sys w git_diff_argv (Some path) = (Exited 0 d e1, w1)" "d \<noteq> []"
    "spawn sys w1 (gemini_argv (make_prompt d)) None = (Exited 0 g e2, w2)"
    "click_confirm True answers = Inr True"
    "spawn sys w2 (git_commit_argv (py_strip g)) (Some path) = (r3, w3)"
    "completed (git_commit_argv (py_strip g)) r3 = Inl e"
    "cli sys answers path w =
       \<lparr>trace = trace_committing (which sys w (str ''gemini'')) path d e1 g e2 r3 @
          fst (handle_exn e),
        status = snd (handle_exn e), world = w3\<rparr>"
  | d e1 w1 g e2 w2 cout cerr w3 where
    "gemini_found sys w" "isdir sys w (os_path_join path (str ''.git''))"
    "spawn sys w git_diff_argv (Some path) = (Exited 0 d e1, w1)" "d \<noteq> []"
    "spawn sys w1 (gemini_argv (make_prompt d)) None = (Exited 0 g e2, w2)"
    "click_confirm True answers = Inr True"
    "spawn sys w2 (git_commit_argv (py_strip g)) (Some path) = (Exited 0 cout cerr, w3)"
    "cli sys answers path w =
       \<lparr>trace = trace_committing (which sys w (str ''gemini'')) path d e1 g e2
          (Exited 0 cout cerr) @
          [Echo Stdout ([10, 9989] @ str '' Commit successful!''),
           Echo Stdout cout],
        status = Returned, world = w3\<rparr>"
proof (cases "gemini_found sys w")
  case False
  then show ?thesis by (intro that(1)) (simp_all add: cli_def)
next
  case gem: True
  show ?thesis
  proof (cases "isdir sys w (os_path_join path (str ''.git''))")
    case False
    with gem show ?thesis by (intro that(2)) (simp_all add: cli_def cli_try_def Let_def)
  next
    case dir: True
    obtain r1 w1 where s1: "spawn sys w git_diff_argv (Some path) = (r1, w1)"
      by (cases "spawn sys w git_diff_argv (Some path)")
    show ?thesis
    proof (cases "completed git_diff_argv r1")
      case (Inl e)
      with gem dir s1 show ?thesis
        by (intro that(3)[of r1 w1 e]) (simp_all add: cli_def cli_try_def subprocess_run_def Let_def)
    next
      case (Inr oe)
      obtain d e1 where oe: "oe = (d, e1)" by (cases oe)
      with Inr have r1: "r1 = Exited 0 d e1" by (simp add: completed_Inr)
      note s1 = s1[unfolded r1]
      have c1: "completed git_diff_argv (Exited 0 d e1) = Inr (d, e1)"
        by (simp add: completed_Inr)
      show ?thesis
      proof (cases "d = []")
        case True
        with gem dir s1 c1 show ?thesis
          by (intro that(4)[of e1 w1])
             (simp_all add: cli_def cli_try_def subprocess_run_def Let_def)
      next
        case nonempty: False
        obtain r2 w2 where s2: "spawn sys w1 (gemini_argv (make_prompt d)) None = (r2, w2)"
          by (cases "spawn sys w1 (gemini_argv (make_prompt d)) None")
        show ?thesis
        proof (cases "completed (gemini_argv (make_prompt d)) r2")
          case (Inl e)
          with gem dir s1 c1 nonempty s2 show ?thesis
            by (intro that(5)[of d e1 w1 r2 w2 e])
               (simp_all add: cli_def cli_try_def subprocess_run_def Let_def)
        next
          case (Inr oe2)
          obtain g e2 where oe2: "oe2 = (g, e2)" by (cases oe2)
          with Inr have r2: "r2 = Exited 0 g e2" by (simp add: completed_Inr)
          note s2 = s2[unfolded r2]
          have c2: "completed (gemini_argv (make_prompt d)) (Exited 0 g e2) = Inr (g, e2)"
            by (simp add: completed_Inr)
          show ?thesis
          proof (cases "click_confirm True answers")
            case (Inl e)
            with gem dir s1 c1 nonempty s2 c2 show ?thesis
              by (intro that(6)[of d e1 w1 g e2 w2 e])
                 (simp_all add: cli_def cli_try_def subprocess_run_def Let_def)
          next
            case (Inr b)
            show ?thesis
            proof (cases b)
              case False
              with Inr gem dir s1 c1 nonempty s2 c2 show ?thesis
                by (intro that(7)[of d e1 w1 g e2 w2])
                   (simp_all add: cli_def cli_try_def subprocess_run_def Let_def)
            next
              case True
              obtain r3 w3 where
                s3: "spawn sys w2 (git_commit_argv (py_strip g)) (Some path) = (r3, w3)"
                by (cases "spawn sys w2 (git_commit_argv (py_strip g)) (Some path)")
              show ?thesis
              proof (cases "completed (git_commit_argv (py_strip g)) r3")
                case (Inl e)
                with True Inr gem dir s1 c1 nonempty s2 c2 s3 show ?thesis
                  by (intro that(8)[of d e1 w1 g e2 w2 r3 w3 e])
                     (simp_all add: cli_def cli_try_def subprocess_run_def Let_def)
              next
                case c3: (Inr oe3)
                obtain cout cerr where oe3: "oe3 = (cout, cerr)" by (cases oe3)
                with c3 have r3: "r3 = Exited 0 cout cerr" by (simp add: completed_Inr)
                note s3 = s3[unfolded r3]
                have c3': "completed (git_commit_argv (py_strip g)) (Exited 0 cout cerr)
                    = Inr (cout, cerr)"
                  by (simp add: completed_Inr)
                from True Inr gem dir s1 c1 nonempty s2 c2 s3 c3' show ?thesis
                  by (intro that(9)[of d e1 w1 g e2 w2 cout cerr w3])
                     (simp_all add: cli_def cli_try_def subprocess_run_def Let_def)
              qed
            qed
          qed
        qed
      qed
    qed
  qed
qed

text \<open>The command lines the \<open>except\<close> clause prints for the three commands.\<close>

lemma str_append: "str a @ str b = str (a @ b)"
  by (simp add: str_def)

lemma str_append_more: "str a @ str b @ rest = str (a @ b) @ rest"
  by (simp add: str_def)

lemma join_diff: "py_join (str '' '') git_diff_argv = str ''git diff --staged''"
  by (simp add: git_diff_argv_def str_def)

lemma join_gemini: "py_join (str '' '') (gemini_argv p) = str ''gemini chat '' @ p"
  by (simp add: gemini_argv_def str_def)

lemma join_commit: "py_join (str '' '') (git_commit_argv m) = str ''git commit -m '' @ m"
  by (simp add: git_commit_argv_def str_def)

lemma py_strip_blank:
  assumes "\<forall>c\<in>set g. py_isspace c"
  shows "py_strip g = []"
proof -
  have "dropWhile py_isspace g = []" using assms by (induction g) simp_all
  then have "py_strip g = rev (dropWhile py_isspace (rev []))"
    by (simp only: py_strip_def)
  then show ?thesis by simp
qed

lemma cli_empty_diff:
  assumes "gemini_found sys w" and "isdir sys w (os_path_join path (str ''.git''))"
    and "spawn sys w git_diff_argv (Some path) = (Exited 0 [] err, w1)"
  shows "cli sys answers path w =
       \<lparr>trace = trace_diffed (which sys w (str ''gemini'')) path (Exited 0 [] err) @
          [Echo Stdout
             (str ''No staged changes to commit. Use 'git add' to stage your changes.'')],
        status = Returned, world = w1\<rparr>"
  using assms by (simp add: cli_def cli_try_def subprocess_run_def completed_def Let_def)

lemma empty_diff_observed:
  assumes "Run git_diff_argv (Some path) (Exited 0 [] err)
             \<in> set (trace (cli sys answers path w))"
  shows "gemini_found sys w \<and> isdir sys w (os_path_join path (str ''.git''))
         \<and> fst (spawn sys w git_diff_argv (Some path)) = Exited 0 [] err"
  using assms
proof (cases rule: cli_cases[where sys=sys and w=w and answers=answers and path=path])
  case (diff_raised r1 w1 e)
  then show ?thesis using assms by (auto simp: completed_Inl)
qed (auto simp: argv_defs)

section \<open>Properties of the command\<close>

text \<open>
  C1. When the user declines the confirmation prompt, the run ends right after the prompt
  with the line "Commit aborted by user." on stdout, it returns (exit code 0), the only
  processes it ran are \<open>git diff --staged\<close> and \<open>gemini chat\<close>, and no
  \<open>git commit\<close> was run, whatever the message.
\<close>

theorem declined_never_commits:
  assumes "Confirm q dflt (Inr False) \<in> set (trace (cli sys answers path w))"
  shows "(\<exists>pre. trace (cli sys answers path w) =
            pre @ [Confirm q dflt (Inr False), Echo Stdout (str ''Commit aborted by user.'')])
         \<and> status (cli sys answers path w) = Returned
         \<and> exit_code (status (cli sys answers path w)) = 0
         \<and> (\<exists>d. invoked (trace (cli sys answers path w)) =
                [git_diff_argv, gemini_argv (make_prompt d)])
         \<and> (\<forall>m. git_commit_argv m \<notin> set (invoked (trace (cli sys answers path w))))"
  using assms
proof (cases rule: cli_cases[where sys=sys and w=w and answers=answers and path=path])
  case (diff_raised r1 w1 e)
  then show ?thesis using assms by (cases e) (auto simp: handle_exn_def)
next
  case (gemini_raised d e1 w1 r2 w2 e)
  then show ?thesis using assms by (cases e) (auto simp: handle_exn_def)
next
  case (interrupted d e1 w1 g e2 w2 e)
  then show ?thesis using assms by (cases e) (auto simp: handle_exn_def)
next
  case (commit_raised d e1 w1 g e2 w2 r3 w3 e)
  then show ?thesis using assms by (cases e) (auto simp: handle_exn_def)
next
  case (declined d e1 w1 g e2 w2)
  then show ?thesis using assms by (auto simp: exit_code_def argv_defs)
qed auto

theorem declined_never_commits_witness:
  "Confirm (10 # str ''Do you want to commit with this message?'') True (Inr False)
     \<in> set (trace (cli (scenario_sys (Exited 0 (str ''done'') [])) [AnsNo] (str ''/r'') 0))
   \<and> status (cli (scenario_sys (Exited 0 (str ''done'') [])) [AnsNo] (str ''/r'') 0) = Returned
   \<and> git_commit_argv (str ''Fix off-by-one in parser'')
       \<notin> set (invoked (trace (cli (scenario_sys (Exited 0 (str ''done'') [])) [AnsNo] (str ''/r'') 0)))"
proof -
  have h: "Confirm (10 # str ''Do you want to commit with this message?'') True (Inr False)
     \<in> set (trace (cli (scenario_sys (Exited 0 (str ''done'') [])) [AnsNo] (str ''/r'') 0))"
    by (simp add: run_defs)
  from declined_never_commits[OF h] h show ?thesis by blast
qed

text \<open>
  C2. When \<open>git diff --staged\<close> succeeds with empty output, the run is exactly: the
  search for \<open>gemini\<close>, the line about the repository, the \<open>.git\<close> test, the diff,
  and the line "No staged changes to commit. Use 'git add' to stage your changes." on
  stdout. It returns with exit code 0, writes nothing to stderr, and runs no process but
  the diff: \<open>gemini\<close> is never called.
\<close>

theorem empty_diff_stops:
  assumes "Run git_diff_argv (Some path) (Exited 0 [] err)
             \<in> set (trace (cli sys answers path w))"
  shows "trace (cli sys answers path w) =
           trace_diffed (which sys w (str ''gemini'')) path (Exited 0 [] err) @
           [Echo Stdout
              (str ''No staged changes to commit. Use 'git add' to stage your changes.'')]
         \<and> status (cli sys answers path w) = Returned
         \<and> exit_code (status (cli sys answers path w)) = 0
         \<and> echoed Stderr (trace (cli sys answers path w)) = []
         \<and> invoked (trace (cli sys answers path w)) = [git_diff_argv]
         \<and> (\<forall>p. gemini_argv p \<notin> set (invoked (trace (cli sys answers path w))))"
  using assms
proof (cases rule: cli_cases[where sys=sys and w=w and answers=answers and path=path])
  case (diff_raised r1 w1 e)
  then show ?thesis using assms by (auto simp: completed_Inl)
next
  case (empty_diff e1 w1)
  then show ?thesis using assms by (auto simp: exit_code_def argv_defs)
qed (auto simp: argv_defs)

theorem empty_diff_stops_witness:
  "Run git_diff_argv (Some (str ''/r'')) (Exited 0 [] [])
     \<in> set (trace (cli (repo_sys (Exited 0 [] []) NoSuchFile NoSuchFile) [] (str ''/r'') 0))
   \<and> invoked (trace (cli (repo_sys (Exited 0 [] []) NoSuchFile NoSuchFile) [] (str ''/r'') 0))
       = [git_diff_argv]
   \<and> echoed Stderr (trace (cli (repo_sys (Exited 0 [] []) NoSuchFile NoSuchFile) [] (str ''/r'') 0))
       = []
   \<and> status (cli (repo_sys (Exited 0 [] []) NoSuchFile NoSuchFile) [] (str ''/r'') 0) = Returned"
proof -
  have h: "Run git_diff_argv (Some (str ''/r'')) (Exited 0 [] [])
     \<in> set (trace (cli (repo_sys (Exited 0 [] []) NoSuchFile NoSuchFile) [] (str ''/r'') 0))"
    by (simp add: run_defs)
  from empty_diff_stops[OF h] h show ?thesis by blast
qed

text \<open>
  C3, as amended. When \<open>gemini\<close> is found on the search path and the target has no
  \<open>.git\<close> directory, the run writes the line about the repository to stdout, then
  exactly "Error: The provided path is not a Git repository." to stderr, and returns:
  no process is run and the world is unchanged.
\<close>

theorem not_a_repository_stops:
  assumes "which sys w (str ''gemini'') = Some p" and "p \<noteq> []"
    and "\<not> isdir sys w (os_path_join path (str ''.git''))"
  shows "trace (cli sys answers path w) =
           trace_checked (Some p) path False @
           [Echo Stderr (str ''Error: The provided path is not a Git repository.'')]
         \<and> status (cli sys answers path w) = Returned
         \<and> echoed Stderr (trace (cli sys answers path w)) =
             [str ''Error: The provided path is not a Git repository.'']
         \<and> invoked (trace (cli sys answers path w)) = []
         \<and> world (cli sys answers path w) = w"
  using assms
  by (cases rule: cli_cases[where sys=sys and w=w and answers=answers and path=path]) auto

theorem not_a_repository_stops_witness:
  "which (demo_sys True [str ''/r''] NoSuchFile NoSuchFile NoSuchFile) 0 (str ''gemini'') = Some (str ''/usr/bin/'' @ str ''gemini'')
   \<and> str ''/usr/bin/'' @ str ''gemini'' \<noteq> []
   \<and> \<not> isdir (demo_sys True [str ''/r''] NoSuchFile NoSuchFile NoSuchFile) 0 (os_path_join (str ''/r'') (str ''.git''))
   \<and> echoed Stderr (trace (cli (demo_sys True [str ''/r''] NoSuchFile NoSuchFile NoSuchFile) [] (str ''/r'') 0)) =
       [str ''Error: The provided path is not a Git repository.'']
   \<and> invoked (trace (cli (demo_sys True [str ''/r''] NoSuchFile NoSuchFile NoSuchFile) [] (str ''/r'') 0)) = []
   \<and> world (cli (demo_sys True [str ''/r''] NoSuchFile NoSuchFile NoSuchFile) [] (str ''/r'') 0) = 0"
proof -
  have a: "which (demo_sys True [str ''/r''] NoSuchFile NoSuchFile NoSuchFile) 0 (str ''gemini'') = Some (str ''/usr/bin/'' @ str ''gemini'')"
    by (simp add: demo_sys_def)
  have b: "str ''/usr/bin/'' @ str ''gemini'' \<noteq> []" by simp
  have c: "\<not> isdir (demo_sys True [str ''/r''] NoSuchFile NoSuchFile NoSuchFile) 0 (os_path_join (str ''/r'') (str ''.git''))"
    by (simp add: demo_sys_def os_path_join_def str_def)
  from not_a_repository_stops[OF a b c] a b c show ?thesis by blast
qed

text \<open>
  C3, as stated, fails when \<open>gemini\<close> is not installed: for the directory \<open>/r\<close>
  without \<open>/r/.git\<close> the run never writes the message about the repository, because
  the check for \<open>gemini\<close> returns first.
\<close>

theorem not_a_repository_counterexample:
  "isdir (demo_sys False [str ''/r''] NoSuchFile NoSuchFile NoSuchFile) 0 (str ''/r'')
   \<and> \<not> isdir (demo_sys False [str ''/r''] NoSuchFile NoSuchFile NoSuchFile) 0
         (os_path_join (str ''/r'') (str ''.git''))
   \<and> Echo Stderr (str ''Error: The provided path is not a Git repository.'')
       \<notin> set (trace (cli (demo_sys False [str ''/r''] NoSuchFile NoSuchFile NoSuchFile)
                  [] (str ''/r'') 0))"
  by (simp add: run_defs)

text \<open>
  C4. When the captured diff \<open>d\<close> is not empty, \<open>gemini\<close> is called as
  \<open>gemini chat <prompt>\<close> with no working directory, every call of \<open>gemini\<close> in the
  run is that one, and the prompt holds \<open>d\<close> unchanged between the markers
  "--- GIT DIFF ---" and "--- END GIT DIFF ---", the text before the first marker and
  the text after the second being the same for every diff.
\<close>

theorem prompt_embeds_diff:
  assumes "Run git_diff_argv (Some path) (Exited 0 d e1)
             \<in> set (trace (cli sys answers path w))"
    and "d \<noteq> []"
  shows "(\<exists>r. Run [str ''gemini'', str ''chat'', make_prompt d] None r
              \<in> set (trace (cli sys answers path w)))
         \<and> (\<forall>argv cwd r. Run argv cwd r \<in> set (trace (cli sys answers path w))
               \<and> hd argv = str ''gemini''
               \<longrightarrow> argv = [str ''gemini'', str ''chat'', make_prompt d] \<and> cwd = None)
         \<and> (\<exists>pre. \<forall>x. make_prompt x =
               pre @ str ''--- GIT DIFF ---\<newline>'' @ x @
               str ''\<newline>--- END GIT DIFF ---\<newline>\<newline>'' @ str ''Commit message:'')"
proof -
  have tmpl: "\<exists>pre. \<forall>x. make_prompt x =
      pre @ str ''--- GIT DIFF ---\<newline>'' @ x @
      str ''\<newline>--- END GIT DIFF ---\<newline>\<newline>'' @ str ''Commit message:''"
    unfolding make_prompt_def by (metis append.assoc)
  show ?thesis
    using assms
  proof (cases rule: cli_cases[where sys=sys and w=w and answers=answers and path=path])
    case (diff_raised r1 w1 e)
    then show ?thesis using assms by (auto simp: completed_Inl)
  next
    case (gemini_raised d' e1' w1 r2 w2 e)
    then show ?thesis using assms tmpl by (auto simp: argv_defs)
  next
    case (interrupted d' e1' w1 g e2 w2 e)
    then show ?thesis using assms tmpl by (auto simp: argv_defs)
  next
    case (commit_raised d' e1' w1 g e2 w2 r3 w3 e)
    then show ?thesis using assms tmpl by (auto simp: argv_defs)
  next
    case (declined d' e1' w1 g e2 w2)
    then show ?thesis using assms tmpl by (auto simp: argv_defs)
  next
    case (committed d' e1' w1 g e2 w2 cout cerr w3)
    then show ?thesis using assms tmpl by (auto simp: argv_defs)
  qed (auto simp: argv_defs)
qed

theorem prompt_embeds_diff_witness:
  "Run git_diff_argv (Some (str ''/r'')) (Exited 0 (str ''+x'') [])
     \<in> set (trace (cli (scenario_sys (Exited 0 (str ''done'') [])) [AnsNo] (str ''/r'') 0))
   \<and> str ''+x'' \<noteq> []
   \<and> (\<exists>r. Run [str ''gemini'', str ''chat'', make_prompt (str ''+x'')] None r
          \<in> set (trace (cli (scenario_sys (Exited 0 (str ''done'') [])) [AnsNo] (str ''/r'') 0)))"
proof -
  have h: "Run git_diff_argv (Some (str ''/r'')) (Exited 0 (str ''+x'') [])
     \<in> set (trace (cli (scenario_sys (Exited 0 (str ''done'') [])) [AnsNo] (str ''/r'') 0))"
    by (simp add: run_defs)
  have n: "str ''+x'' \<noteq> []" by simp
  from prompt_embeds_diff[OF h n] h n show ?thesis by blast
qed



text \<open>
  C6. When a process of the run exits with a non-zero code, the run ends right after it
  with three lines on stderr: the heading, "Command: " with the argument vector joined
  by spaces, and "Error Message: " with the captured stderr unchanged. The command is
  one of three and its line is "git diff --staged", "gemini chat " and the prompt, or
  "git commit -m " and the message. The run returns, and that command was run once only.
\<close>

theorem nonzero_exit_is_reported:
  assumes "Run argv cwd (Exited rc out err) \<in> set (trace (cli sys answers path w))"
    and "rc \<noteq> 0"
  shows "(\<exists>pre. trace (cli sys answers path w) =
            pre @ [Run argv cwd (Exited rc out err),
                   Echo Stderr (10 # str ''An error occurred while running an external command:''),
                   Echo Stderr (str ''Command: '' @ py_join (str '' '') argv),
                   Echo Stderr (str ''Error Message: '' @ err)])
         \<and> (argv = [str ''git'', str ''diff'', str ''--staged''] \<and>
              py_join (str '' '') argv = str ''git diff --staged''
            \<or> (\<exists>d. argv = [str ''gemini'', str ''chat'', make_prompt d] \<and>
                   py_join (str '' '') argv = str ''gemini chat '' @ make_prompt d)
            \<or> (\<exists>m. argv = [str ''git'', str ''commit'', str ''-m'', m] \<and>
                   py_join (str '' '') argv = str ''git commit -m '' @ m))
         \<and> status (cli sys answers path w) = Returned
         \<and> count_list (invoked (trace (cli sys answers path w))) argv = 1"
  using assms
proof (cases rule: cli_cases[where sys=sys and w=w and answers=answers and path=path])
  case (diff_raised r1 w1 e)
  then show ?thesis using assms by (auto simp: completed_Inl argv_defs str_append str_append_more)
next
  case (gemini_raised d e1 w1 r2 w2 e)
  then show ?thesis using assms
    by (auto simp: completed_Inl argv_defs str_append str_append_more)
next
  case (commit_raised d e1 w1 g e2 w2 r3 w3 e)
  then show ?thesis using assms
    by (auto simp: completed_Inl argv_defs str_append str_append_more)
qed auto

theorem nonzero_exit_is_reported_witness:
  "Run [str ''git'', str ''commit'', str ''-m'', str ''Fix off-by-one in parser''] (Some (str ''/r''))
       (Exited 1 [] (str ''nothing to commit, working tree clean''))
     \<in> set (trace (cli (scenario_sys (Exited 1 [] (str ''nothing to commit, working tree clean''))) [AnsBare] (str ''/r'') 0))
   \<and> (1::int) \<noteq> 0
   \<and> Echo Stderr (str ''Command: git commit -m Fix off-by-one in parser'')
       \<in> set (trace (cli (scenario_sys (Exited 1 [] (str ''nothing to commit, working tree clean''))) [AnsBare] (str ''/r'') 0))
   \<and> last (trace (cli (scenario_sys (Exited 1 [] (str ''nothing to commit, working tree clean''))) [AnsBare] (str ''/r'') 0)) =
       Echo Stderr (str ''Error Message: nothing to commit, working tree clean'')
   \<and> status (cli (scenario_sys (Exited 1 [] (str ''nothing to commit, working tree clean''))) [AnsBare] (str ''/r'') 0) = Returned"
proof -
  have h: "Run [str ''git'', str ''commit'', str ''-m'', str ''Fix off-by-one in parser''] (Some (str ''/r''))
       (Exited 1 [] (str ''nothing to commit, working tree clean''))
     \<in> set (trace (cli (scenario_sys (Exited 1 [] (str ''nothing to commit, working tree clean''))) [AnsBare] (str ''/r'') 0))"
    by (simp add: run_defs)
  have n: "(1::int) \<noteq> 0" by simp
  note rep = nonzero_exit_is_reported[OF h n]
  from rep[THEN conjunct1] obtain pre where
    t: "trace (cli (scenario_sys (Exited 1 [] (str ''nothing to commit, working tree clean''))) [AnsBare] (str ''/r'') 0) =
          pre @ [Run [str ''git'', str ''commit'', str ''-m'', str ''Fix off-by-one in parser''] (Some (str ''/r''))
                   (Exited 1 [] (str ''nothing to commit, working tree clean'')),
                 Echo Stderr (10 # str ''An error occurred while running an external command:''),
                 Echo Stderr (str ''Command: '' @ py_join (str '' '') [str ''git'', str ''commit'', str ''-m'', str ''Fix off-by-one in parser'']),
                 Echo Stderr (str ''Error Message: '' @ str ''nothing to commit, working tree clean'')]"
    by (elim exE) (rule that)
  have st: "status (cli (scenario_sys (Exited 1 [] (str ''nothing to commit, working tree clean''))) [AnsBare] (str ''/r'') 0) = Returned"
    using rep by (elim conjE)
  have c: "str ''Command: '' @ py_join (str '' '') [str ''git'', str ''commit'', str ''-m'', str ''Fix off-by-one in parser''] =
      str ''Command: git commit -m Fix off-by-one in parser''"
    by (simp add: str_def)
  have e: "str ''Error Message: '' @ str ''nothing to commit, working tree clean'' =
      str ''Error Message: nothing to commit, working tree clean''"
    by (simp add: str_def)
  have cmd: "Echo Stderr (str ''Command: git commit -m Fix off-by-one in parser'')
       \<in> set (trace (cli (scenario_sys (Exited 1 [] (str ''nothing to commit, working tree clean''))) [AnsBare] (str ''/r'') 0))"
    unfolding t c by simp
  have l: "last (trace (cli (scenario_sys (Exited 1 [] (str ''nothing to commit, working tree clean''))) [AnsBare] (str ''/r'') 0)) =
       Echo Stderr (str ''Error Message: nothing to commit, working tree clean'')"
    unfolding t e by simp
  from h n cmd l st show ?thesis by (intro conjI)
qed

text \<open>
  C7. Every run returns with exit code 0 unless a spawn failed for another reason than a
  missing file or the prompt was interrupted. In particular it returns with exit code 0
  when \<open>gemini\<close> is missing, when the target is not a repository, when the diff is
  empty, when the user declines, when a process exits with a non-zero code and when an
  executable is missing; on each of those error paths the last line written goes to
  stderr.
\<close>

theorem handled_outcomes_exit_zero:
  assumes r: "r = cli sys answers path w"
  shows "((status r = Returned \<and> exit_code (status r) = 0)
            \<or> (\<exists>argv cwd m. Run argv cwd (SpawnError m) \<in> set (trace r))
            \<or> (\<exists>q d e. Confirm q d (Inl e) \<in> set (trace r)))
         \<and> (which sys w (str ''gemini'') = None \<longrightarrow>
               status r = Returned \<and> exit_code (status r) = 0 \<and>
               last (trace r) =
                 Echo Stderr (str ''Please install it using: npm install -g @google/gemini-cli''))
         \<and> (\<forall>p. IsDir p False \<in> set (trace r) \<longrightarrow>
               status r = Returned \<and> exit_code (status r) = 0 \<and>
               last (trace r) =
                 Echo Stderr (str ''Error: The provided path is not a Git repository.''))
         \<and> (\<forall>err. Run git_diff_argv (Some path) (Exited 0 [] err) \<in> set (trace r) \<longrightarrow>
               status r = Returned \<and> exit_code (status r) = 0)
         \<and> (\<forall>q d. Confirm q d (Inr False) \<in> set (trace r) \<longrightarrow>
               status r = Returned \<and> exit_code (status r) = 0)
         \<and> (\<forall>argv cwd rc out err.
               Run argv cwd (Exited rc out err) \<in> set (trace r) \<and> rc \<noteq> 0 \<longrightarrow>
               status r = Returned \<and> exit_code (status r) = 0 \<and>
               last (trace r) = Echo Stderr (str ''Error Message: '' @ err))
         \<and> (\<forall>argv cwd. Run argv cwd NoSuchFile \<in> set (trace r) \<longrightarrow>
               status r = Returned \<and> exit_code (status r) = 0 \<and>
               last (trace r) =
                 Echo Stderr
                   (str ''Error: 'git' command not found. Make sure Git is installed and in your PATH.''))"
proof (cases rule: cli_cases[where sys=sys and w=w and answers=answers and path=path])
  case no_gemini
  then show ?thesis using r by (auto simp: exit_code_def split: option.splits)
next
  case not_repo
  then show ?thesis using r by (auto simp: exit_code_def split: option.splits)
next
  case (diff_raised r1 w1 e)
  then show ?thesis using r
    by (cases r1) (auto simp: exit_code_def completed_Inl argv_defs split: option.splits)
next
  case (empty_diff e1 w1)
  then show ?thesis using r by (auto simp: exit_code_def argv_defs split: option.splits)
next
  case (gemini_raised d e1 w1 r2 w2 e)
  then show ?thesis using r
    by (cases r2) (auto simp: exit_code_def completed_Inl argv_defs split: option.splits)
next
  case (interrupted d e1 w1 g e2 w2 e)
  then show ?thesis using r by (auto simp: exit_code_def argv_defs split: option.splits)
next
  case (declined d e1 w1 g e2 w2)
  then show ?thesis using r by (auto simp: exit_code_def argv_defs split: option.splits)
next
  case (commit_raised d e1 w1 g e2 w2 r3 w3 e)
  then show ?thesis using r
    by (cases r3) (auto simp: exit_code_def completed_Inl argv_defs split: option.splits)
next
  case (committed d e1 w1 g e2 w2 cout cerr w3)
  then show ?thesis using r by (auto simp: exit_code_def argv_defs split: option.splits)
qed

theorem handled_outcomes_exit_zero_witness:
  "which (demo_sys False [str ''/r''] NoSuchFile NoSuchFile NoSuchFile) 0 (str ''gemini'') = None
   \<and> status (cli (demo_sys False [str ''/r''] NoSuchFile NoSuchFile NoSuchFile) [] (str ''/r'') 0) = Returned
   \<and> exit_code (status (cli (demo_sys False [str ''/r''] NoSuchFile NoSuchFile NoSuchFile) [] (str ''/r'') 0)) = 0
   \<and> Run (git_commit_argv (str ''Fix off-by-one in parser'')) (Some (str ''/r''))
         (Exited 1 [] (str ''nothing to commit, working tree clean''))
       \<in> set (trace (cli (scenario_sys (Exited 1 [] (str ''nothing to commit, working tree clean''))) [AnsBare] (str ''/r'') 0))
   \<and> status (cli (scenario_sys (Exited 1 [] (str ''nothing to commit, working tree clean''))) [AnsBare] (str ''/r'') 0) = Returned
   \<and> exit_code (status (cli (scenario_sys (Exited 1 [] (str ''nothing to commit, working tree clean''))) [AnsBare] (str ''/r'') 0)) = 0
   \<and> last (trace (cli (scenario_sys (Exited 1 [] (str ''nothing to commit, working tree clean''))) [AnsBare] (str ''/r'') 0)) =
       Echo Stderr (str ''Error Message: '' @ str ''nothing to commit, working tree clean'')"
proof -
  have a: "which (demo_sys False [str ''/r''] NoSuchFile NoSuchFile NoSuchFile) 0 (str ''gemini'') = None"
    by (simp add: demo_sys_def)
  have h: "Run (git_commit_argv (str ''Fix off-by-one in parser'')) (Some (str ''/r''))
       (Exited 1 [] (str ''nothing to commit, working tree clean''))
     \<in> set (trace (cli (scenario_sys (Exited 1 [] (str ''nothing to commit, working tree clean''))) [AnsBare] (str ''/r'') 0))"
    by (simp add: run_defs)
  have n: "(1::int) \<noteq> 0" by simp
  from handled_outcomes_exit_zero
      [where r="cli (demo_sys False [str ''/r''] NoSuchFile NoSuchFile NoSuchFile) [] (str ''/r'') 0"
         and sys="demo_sys False [str ''/r''] NoSuchFile NoSuchFile NoSuchFile" and answers="[]" and path="str ''/r''" and w=0, OF refl]
    handled_outcomes_exit_zero
      [where r="cli (scenario_sys (Exited 1 [] (str ''nothing to commit, working tree clean''))) [AnsBare] (str ''/r'') 0"
         and sys="scenario_sys (Exited 1 [] (str ''nothing to commit, working tree clean''))" and answers="[AnsBare]" and path="str ''/r''"
         and w=0, OF refl]
    a h n
  show ?thesis by blast
qed



text \<open>
  C9. A run that finds the staged diff empty ran no process but \<open>git diff --staged\<close>, so
  the world it leaves is the one the diff left. When the diff leaves the world as it
  was, a second run from there (whatever the user would have answered) has the same
  trace, ends with the same line about no staged changes, returns as the first did, and
  leaves the world unchanged again.
\<close>

theorem empty_diff_idempotent:
  assumes "Run git_diff_argv (Some path) (Exited 0 [] err)
             \<in> set (trace (cli sys a1 path w))"
  shows "world (cli sys a1 path w) = snd (spawn sys w git_diff_argv (Some path))
         \<and> invoked (trace (cli sys a1 path w)) = [git_diff_argv]
         \<and> (snd (spawn sys w git_diff_argv (Some path)) = w \<longrightarrow>
              trace (cli sys a2 path (world (cli sys a1 path w))) = trace (cli sys a1 path w)
              \<and> status (cli sys a1 path w) = Returned
              \<and> status (cli sys a2 path (world (cli sys a1 path w))) = Returned
              \<and> last (trace (cli sys a2 path (world (cli sys a1 path w)))) =
                  Echo Stdout
                    (str ''No staged changes to commit. Use 'git add' to stage your changes.'')
              \<and> world (cli sys a2 path (world (cli sys a1 path w))) = w)"
proof -
  from empty_diff_observed[OF assms]
  have g: "gemini_found sys w" and d: "isdir sys w (os_path_join path (str ''.git''))"
    and s: "spawn sys w git_diff_argv (Some path) =
              (Exited 0 [] err, snd (spawn sys w git_diff_argv (Some path)))"
    by (simp_all add: prod_eq_iff)
  have r1: "cli sys a1 path w =
       \<lparr>trace = trace_diffed (which sys w (str ''gemini'')) path (Exited 0 [] err) @
          [Echo Stdout
             (str ''No staged changes to commit. Use 'git add' to stage your changes.'')],
        status = Returned, world = snd (spawn sys w git_diff_argv (Some path))\<rparr>"
    by (rule cli_empty_diff[OF g d s])
  have r2: "snd (spawn sys w git_diff_argv (Some path)) = w \<Longrightarrow>
     cli sys a2 path w =
       \<lparr>trace = trace_diffed (which sys w (str ''gemini'')) path (Exited 0 [] err) @
          [Echo Stdout
             (str ''No staged changes to commit. Use 'git add' to stage your changes.'')],
        status = Returned, world = w\<rparr>"
    using cli_empty_diff[OF g d s, of a2] by simp
  show ?thesis
  proof (intro conjI impI)
    assume ro: "snd (spawn sys w git_diff_argv (Some path)) = w"
    have w1: "world (cli sys a1 path w) = w" using r1 ro by simp
    show "trace (cli sys a2 path (world (cli sys a1 path w))) = trace (cli sys a1 path w)"
      unfolding w1 using r1 r2[OF ro] by simp
    show "status (cli sys a1 path w) = Returned" using r1 by simp
    show "status (cli sys a2 path (world (cli sys a1 path w))) = Returned"
      unfolding w1 using r2[OF ro] by simp
    show "last (trace (cli sys a2 path (world (cli sys a1 path w)))) =
        Echo Stdout (str ''No staged changes to commit. Use 'git add' to stage your changes.'')"
      unfolding w1 using r2[OF ro] by simp
    show "world (cli sys a2 path (world (cli sys a1 path w))) = w"
      unfolding w1 using r2[OF ro] by simp
  next
    show "world (cli sys a1 path w) = snd (spawn sys w git_diff_argv (Some path))"
      using r1 by simp
    show "invoked (trace (cli sys a1 path w)) = [git_diff_argv]" using r1 by simp
  qed
qed

theorem empty_diff_idempotent_witness:
  "Run git_diff_argv (Some (str ''/r'')) (Exited 0 [] [])
     \<in> set (trace (cli (repo_sys (Exited 0 [] []) NoSuchFile NoSuchFile) [] (str ''/r'') 0))
   \<and> snd (spawn (repo_sys (Exited 0 [] []) NoSuchFile NoSuchFile) 0 git_diff_argv (Some (str ''/r''))) = 0
   \<and> trace (cli (repo_sys (Exited 0 [] []) NoSuchFile NoSuchFile) [AnsYes] (str ''/r'') (world (cli (repo_sys (Exited 0 [] []) NoSuchFile NoSuchFile) [] (str ''/r'') 0))) =
       trace (cli (repo_sys (Exited 0 [] []) NoSuchFile NoSuchFile) [] (str ''/r'') 0)
   \<and> last (trace (cli (repo_sys (Exited 0 [] []) NoSuchFile NoSuchFile) [AnsYes] (str ''/r'') (world (cli (repo_sys (Exited 0 [] []) NoSuchFile NoSuchFile) [] (str ''/r'') 0)))) =
       Echo Stdout (str ''No staged changes to commit. Use 'git add' to stage your changes.'')
   \<and> world (cli (repo_sys (Exited 0 [] []) NoSuchFile NoSuchFile) [AnsYes] (str ''/r'') (world (cli (repo_sys (Exited 0 [] []) NoSuchFile NoSuchFile) [] (str ''/r'') 0))) = 0"
proof -
  have h: "Run git_diff_argv (Some (str ''/r'')) (Exited 0 [] [])
     \<in> set (trace (cli (repo_sys (Exited 0 [] []) NoSuchFile NoSuchFile) [] (str ''/r'') 0))"
    by (simp add: run_defs)
  have ro: "snd (spawn (repo_sys (Exited 0 [] []) NoSuchFile NoSuchFile) 0 git_diff_argv (Some (str ''/r''))) = 0"
    by (simp add: repo_sys_def demo_sys_def)
  from empty_diff_idempotent[OF h, of "[AnsYes]"] h ro show ?thesis by blast
qed

text \<open>
  C10. When \<open>gemini chat\<close> succeeds with a stdout of whitespace only, the candidate
  message is the empty string; it is still shown, the prompt is still asked, and when the
  user confirms the run calls \<open>git commit -m\<close> with the empty string as the message.
\<close>

theorem blank_reply_commits_empty_message:
  assumes "Run (gemini_argv p) None (Exited 0 g e2) \<in> set (trace (cli sys answers path w))"
    and "\<forall>c\<in>set g. py_isspace c"
  shows "py_strip g = []
         \<and> Echo Stdout [] \<in> set (trace (cli sys answers path w))
         \<and> Confirm (10 # str ''Do you want to commit with this message?'') True
              (click_confirm True answers) \<in> set (trace (cli sys answers path w))
         \<and> (click_confirm True answers = Inr True \<longrightarrow>
              (\<exists>r3. Run [str ''git'', str ''commit'', str ''-m'', []] (Some path) r3
                 \<in> set (trace (cli sys answers path w))))"
proof -
  have e: "py_strip g = []" using assms(2) by (rule py_strip_blank)
  show ?thesis
    using assms(1)
  proof (cases rule: cli_cases[where sys=sys and w=w and answers=answers and path=path])
    case (gemini_raised d e1 w1 r2 w2 e)
    then show ?thesis using assms(1) by (auto simp: argv_defs completed_Inl)
  next
    case (interrupted d e1 w1 g' e2' w2 e')
    then show ?thesis using assms(1) e by (auto simp: argv_defs)
  next
    case (declined d e1 w1 g' e2' w2)
    then show ?thesis using assms(1) e by (auto simp: argv_defs)
  next
    case (commit_raised d e1 w1 g' e2' w2 r3 w3 e')
    then show ?thesis using assms(1) e by (auto simp: argv_defs)
  next
    case (committed d e1 w1 g' e2' w2 cout cerr w3)
    then show ?thesis using assms(1) e by (auto simp: argv_defs)
  qed (auto simp: argv_defs)
qed

theorem blank_reply_commits_empty_message_witness:
  "Run (gemini_argv (make_prompt (str ''+x''))) None (Exited 0 (str '' \<newline>'') [])
     \<in> set (trace (cli (repo_sys (Exited 0 (str ''+x'') []) (Exited 0 (str '' \<newline>'') []) (Exited 0 (str ''done'') [])) [AnsBare] (str ''/r'') 0))
   \<and> list_all py_isspace (str '' \<newline>'')
   \<and> click_confirm True [AnsBare] = Inr True
   \<and> py_strip (str '' \<newline>'') = []
   \<and> Echo Stdout [] \<in> set (trace (cli (repo_sys (Exited 0 (str ''+x'') []) (Exited 0 (str '' \<newline>'') []) (Exited 0 (str ''done'') [])) [AnsBare] (str ''/r'') 0))
   \<and> (\<exists>r3. Run [str ''git'', str ''commit'', str ''-m'', []] (Some (str ''/r'')) r3
          \<in> set (trace (cli (repo_sys (Exited 0 (str ''+x'') []) (Exited 0 (str '' \<newline>'') []) (Exited 0 (str ''done'') [])) [AnsBare] (str ''/r'') 0)))"
proof -
  have h: "Run (gemini_argv (make_prompt (str ''+x''))) None (Exited 0 (str '' \<newline>'') [])
     \<in> set (trace (cli (repo_sys (Exited 0 (str ''+x'') []) (Exited 0 (str '' \<newline>'') []) (Exited 0 (str ''done'') [])) [AnsBare] (str ''/r'') 0))"
    by (simp add: run_defs)
  have b: "\<forall>c\<in>set (str '' \<newline>''). py_isspace c"
    by (simp add: str_def py_isspace_def)
  have l: "list_all py_isspace (str '' \<newline>'')"
    using b by (simp add: list_all_iff)
  have c: "click_confirm True [AnsBare] = Inr True" by simp
  from blank_reply_commits_empty_message[OF h b] h l c show ?thesis by blast
qed

end
